theory Spec2Isabelle
  imports Main
begin

section \<open>The commit object handed to the callback\<close>

text \<open>
  \<^verbatim>\<open>change_authors.py\<close> defines one function, \<^verbatim>\<open>commit_callback(commit)\<close>, which a
  history-rewriting driver calls once per commit. The function reads and assigns attributes
  of the Python object \<^verbatim>\<open>commit\<close> and returns nothing.

  A Python object is modelled by its attribute dictionary: a map from attribute names to
  values. The values are built-in data: \<^verbatim>\<open>None\<close>, a byte string (\<^verbatim>\<open>bytes\<close>; a HOL
  \<open>char\<close> is one byte), a bytes-like buffer that is not \<^verbatim>\<open>bytes\<close> (\<^verbatim>\<open>bytearray\<close>, or a
  \<^verbatim>\<open>memoryview\<close> of bytes), a text string (\<^verbatim>\<open>str\<close>), an integer, or a list of values.
  Instances of classes that define their own \<^verbatim>\<open>__eq__\<close> are not modelled: what \<^verbatim>\<open>==\<close> does
  on them is arbitrary code.
\<close>

datatype pyval =
    PyNone
  | PyBytes string
  | PyByteArray string
  | PyStr string
  | PyInt int
  | PyList "pyval list"

type_synonym commit = "string \<rightharpoonup> pyval"

text \<open>
  Reading an attribute the object does not have raises \<^verbatim>\<open>AttributeError\<close>; the error
  carries the attribute's name. A call either returns (with \<^verbatim>\<open>None\<close>, which carries no
  information) or raises.
\<close>

datatype error = AttributeError string

datatype outcome = Returned | Raised error

definition getattr :: "commit \<Rightarrow> string \<Rightarrow> error + pyval" where
  "getattr obj name = (case obj name of None \<Rightarrow> Inl (AttributeError name) | Some v \<Rightarrow> Inr v)"

definition setattr :: "commit \<Rightarrow> string \<Rightarrow> pyval \<Rightarrow> commit" where
  "setattr obj name v = obj(name \<mapsto> v)"

text \<open>
  \<^verbatim>\<open>v == b"..."\<close>, the comparison of a value with a \<^verbatim>\<open>bytes\<close> literal. A \<^verbatim>\<open>bytes\<close> value
  and a bytes-like buffer are equal to the literal when they hold the same bytes. Every other
  built-in value is unequal to it; the comparison does not raise (a \<^verbatim>\<open>str\<close> operand gives
  a warning only, unless the interpreter was started with the option that turns that warning
  into an error).
\<close>

fun py_eq_bytes :: "pyval \<Rightarrow> string \<Rightarrow> bool" where
  "py_eq_bytes (PyBytes b) lit = (b = lit)"
| "py_eq_bytes (PyByteArray b) lit = (b = lit)"
| "py_eq_bytes PyNone lit = False"
| "py_eq_bytes (PyStr s) lit = False"
| "py_eq_bytes (PyInt i) lit = False"
| "py_eq_bytes (PyList vs) lit = False"

section \<open>The callback\<close>

text \<open>
  The condition of the first \<^verbatim>\<open>if\<close> (source lines 4 and 5):
  \<^verbatim>\<open>commit.author_email == b"andrew@caramel-code.com" and commit.author_name == b"Andrew Hewitt"\<close>.
  Python's \<^verbatim>\<open>and\<close> evaluates its right operand only when the left one is true, so
  \<^verbatim>\<open>author_name\<close> is read only after the e-mail has matched.
\<close>

definition author_test :: "commit \<Rightarrow> error + bool" where
  "author_test commit =
     (case getattr commit ''author_email'' of
        Inl e \<Rightarrow> Inl e
      | Inr email \<Rightarrow>
          if py_eq_bytes email ''andrew@caramel-code.com'' then
            (case getattr commit ''author_name'' of
               Inl e \<Rightarrow> Inl e
             | Inr name \<Rightarrow> Inr (py_eq_bytes name ''Andrew Hewitt''))
          else Inr False)"

text \<open>The condition of the second \<^verbatim>\<open>if\<close> (source lines 10 and 11).\<close>

definition committer_test :: "commit \<Rightarrow> error + bool" where
  "committer_test commit =
     (case getattr commit ''committer_email'' of
        Inl e \<Rightarrow> Inl e
      | Inr email \<Rightarrow>
          if py_eq_bytes email ''andrew@caramel-code.com'' then
            (case getattr commit ''committer_name'' of
               Inl e \<Rightarrow> Inl e
             | Inr name \<Rightarrow> Inr (py_eq_bytes name ''Andrew Hewitt''))
          else Inr False)"

text \<open>
  The function mutates its argument in place, so the model returns the object as it is when
  the call ends, together with how the call ended. An exception raised by the second
  \<^verbatim>\<open>if\<close> leaves the assignments of the first one in place.
\<close>

definition commit_callback :: "commit \<Rightarrow> commit \<times> outcome" where
  "commit_callback commit =
     (case author_test commit of
        Inl e \<Rightarrow> (commit, Raised e)
      | Inr a \<Rightarrow>
          let commit1 =
            (if a then
               setattr (setattr commit ''author_email'' (PyBytes ''gigaelk@gmail.com''))
                 ''author_name'' (PyBytes ''GigaElk'')
             else commit)
          in
            (case committer_test commit1 of
               Inl e \<Rightarrow> (commit1, Raised e)
             | Inr b \<Rightarrow>
                 (if b then
                    setattr (setattr commit1 ''committer_email'' (PyBytes ''gigaelk@gmail.com''))
                      ''committer_name'' (PyBytes ''GigaElk'')
                  else commit1,
                  Returned)))"

section \<open>Vocabulary of the properties\<close>

abbreviation legacy_name :: pyval where
  "legacy_name \<equiv> PyBytes ''Andrew Hewitt''"

abbreviation legacy_email :: pyval where
  "legacy_email \<equiv> PyBytes ''andrew@caramel-code.com''"

abbreviation canonical_name :: pyval where
  "canonical_name \<equiv> PyBytes ''GigaElk''"

abbreviation canonical_email :: pyval where
  "canonical_email \<equiv> PyBytes ''gigaelk@gmail.com''"

text \<open>
  A commit record, as the driver constructs it, exposes the four identity attributes. Their
  values are not constrained here: they may be empty, \<^verbatim>\<open>None\<close>, or no byte sequence at
  all.
\<close>

definition commit_record :: "commit \<Rightarrow> bool" where
  "commit_record c \<longleftrightarrow>
     c ''author_name'' \<noteq> None \<and> c ''author_email'' \<noteq> None \<and>
     c ''committer_name'' \<noteq> None \<and> c ''committer_email'' \<noteq> None"

text \<open>The attribute is there and its value is equal, by \<^verbatim>\<open>==\<close>, to the bytes literal.\<close>

definition attr_is :: "commit \<Rightarrow> string \<Rightarrow> string \<Rightarrow> bool" where
  "attr_is c name lit = (case c name of None \<Rightarrow> False | Some v \<Rightarrow> py_eq_bytes v lit)"

text \<open>
  The author pair, respectively the committer pair, is the legacy identity: both fields are
  equal to the legacy values.
\<close>

definition author_is_legacy :: "commit \<Rightarrow> bool" where
  "author_is_legacy c \<longleftrightarrow>
     attr_is c ''author_name'' ''Andrew Hewitt'' \<and>
     attr_is c ''author_email'' ''andrew@caramel-code.com''"

definition committer_is_legacy :: "commit \<Rightarrow> bool" where
  "committer_is_legacy c \<longleftrightarrow>
     attr_is c ''committer_name'' ''Andrew Hewitt'' \<and>
     attr_is c ''committer_email'' ''andrew@caramel-code.com''"

text \<open>
  The first \<^verbatim>\<open>if\<close> does not raise: every attribute its condition reads is there.
\<close>

definition author_readable :: "commit \<Rightarrow> bool" where
  "author_readable c \<longleftrightarrow>
     c ''author_email'' \<noteq> None \<and>
     (attr_is c ''author_email'' ''andrew@caramel-code.com'' \<longrightarrow> c ''author_name'' \<noteq> None)"

section \<open>Example commits\<close>

text \<open>
  The scenarios of the specification and a few more: both pairs legacy, only the author,
  only the committer, neither; partial matches (the name in lower case with the legacy
  e-mail, the legacy name with another e-mail); identity attributes that are empty,
  \<^verbatim>\<open>None\<close> or text instead of bytes; an object that has the two e-mail attributes only;
  the legacy author held in \<^verbatim>\<open>bytearray\<close>s; and an object that has no \<^verbatim>\<open>author_email\<close>
  attribute at all.
\<close>

definition rec_both :: commit where
  "rec_both =
     [''author_name'' \<mapsto> legacy_name, ''author_email'' \<mapsto> legacy_email,
      ''committer_name'' \<mapsto> legacy_name, ''committer_email'' \<mapsto> legacy_email]"

definition rec_author_only :: commit where
  "rec_author_only =
     [''author_name'' \<mapsto> legacy_name, ''author_email'' \<mapsto> legacy_email,
      ''committer_name'' \<mapsto> PyBytes ''Jane Doe'',
      ''committer_email'' \<mapsto> PyBytes ''jane@example.com'',
      ''message'' \<mapsto> PyBytes ''Initial commit'']"

definition rec_committer_only :: commit where
  "rec_committer_only =
     [''author_name'' \<mapsto> PyBytes ''Jane Doe'',
      ''author_email'' \<mapsto> PyBytes ''jane@example.com'',
      ''committer_name'' \<mapsto> legacy_name, ''committer_email'' \<mapsto> legacy_email]"

definition rec_neither :: commit where
  "rec_neither =
     [''author_name'' \<mapsto> PyBytes ''Jane Doe'',
      ''author_email'' \<mapsto> PyBytes ''jane@example.com'',
      ''committer_name'' \<mapsto> PyBytes ''Jane Doe'',
      ''committer_email'' \<mapsto> PyBytes ''jane@example.com'']"

definition rec_partial :: commit where
  "rec_partial =
     [''author_name'' \<mapsto> PyBytes ''andrew hewitt'', ''author_email'' \<mapsto> legacy_email,
      ''committer_name'' \<mapsto> legacy_name,
      ''committer_email'' \<mapsto> PyBytes ''old2@caramel-code.com'']"

definition rec_malformed :: commit where
  "rec_malformed =
     [''author_name'' \<mapsto> PyBytes [], ''author_email'' \<mapsto> PyNone,
      ''committer_name'' \<mapsto> PyStr ''Andrew Hewitt'', ''committer_email'' \<mapsto> legacy_email]"

definition rec_emails_only :: commit where
  "rec_emails_only =
     [''author_email'' \<mapsto> PyBytes ''jane@example.com'',
      ''committer_email'' \<mapsto> PyBytes ''jane@example.com'']"

definition rec_bytearray :: commit where
  "rec_bytearray =
     [''author_name'' \<mapsto> PyByteArray ''Andrew Hewitt'',
      ''author_email'' \<mapsto> PyByteArray ''andrew@caramel-code.com'',
      ''committer_name'' \<mapsto> PyBytes ''Jane Doe'',
      ''committer_email'' \<mapsto> PyBytes ''jane@example.com'']"

definition rec_no_author_email :: commit where
  "rec_no_author_email =
     [''author_name'' \<mapsto> legacy_name,
      ''committer_name'' \<mapsto> legacy_name, ''committer_email'' \<mapsto> legacy_email]"

definition rec_author_only_reworded :: commit where
  "rec_author_only_reworded = rec_author_only(''message'' \<mapsto> PyBytes ''Reworded'')"

section \<open>What a call does to each attribute\<close>

lemma attr_is_update [simp]:
  "attr_is (c(k \<mapsto> v)) name lit =
     (if name = k then py_eq_bytes v lit else attr_is c name lit)"
  by (simp add: attr_is_def)

lemma attr_is_empty [simp]: "attr_is Map.empty name lit = False"
  by (simp add: attr_is_def)

lemma attr_is_None [simp]: "c name = None \<Longrightarrow> attr_is c name lit = False"
  by (simp add: attr_is_def)

lemma author_test_eq:
  "author_test c =
     (if c ''author_email'' = None then Inl (AttributeError ''author_email'')
      else if \<not> attr_is c ''author_email'' ''andrew@caramel-code.com'' then Inr False
      else if c ''author_name'' = None then Inl (AttributeError ''author_name'')
      else Inr (attr_is c ''author_name'' ''Andrew Hewitt''))"
  by (auto simp: author_test_def getattr_def attr_is_def split: option.splits)

lemma committer_test_eq:
  "committer_test c =
     (if c ''committer_email'' = None then Inl (AttributeError ''committer_email'')
      else if \<not> attr_is c ''committer_email'' ''andrew@caramel-code.com'' then Inr False
      else if c ''committer_name'' = None then Inl (AttributeError ''committer_name'')
      else Inr (attr_is c ''committer_name'' ''Andrew Hewitt''))"
  by (auto simp: committer_test_def getattr_def attr_is_def split: option.splits)

text \<open>
  The object after a call, attribute by attribute, and how the call ends. The committer
  attributes are assigned only when the first \<^verbatim>\<open>if\<close> has not raised.
\<close>

lemma callback_author_name:
  "fst (commit_callback c) ''author_name'' =
     (if author_is_legacy c then Some canonical_name else c ''author_name'')"
  by (auto simp: commit_callback_def author_test_eq committer_test_eq setattr_def
      author_is_legacy_def Let_def split: sum.splits)

lemma callback_author_email:
  "fst (commit_callback c) ''author_email'' =
     (if author_is_legacy c then Some canonical_email else c ''author_email'')"
  by (auto simp: commit_callback_def author_test_eq committer_test_eq setattr_def
      author_is_legacy_def Let_def split: sum.splits)

lemma callback_committer_name:
  "fst (commit_callback c) ''committer_name'' =
     (if author_readable c \<and> committer_is_legacy c then Some canonical_name
      else c ''committer_name'')"
  by (auto simp: commit_callback_def author_test_eq committer_test_eq setattr_def
      committer_is_legacy_def author_readable_def Let_def split: sum.splits)

lemma callback_committer_email:
  "fst (commit_callback c) ''committer_email'' =
     (if author_readable c \<and> committer_is_legacy c then Some canonical_email
      else c ''committer_email'')"
  by (auto simp: commit_callback_def author_test_eq committer_test_eq setattr_def
      committer_is_legacy_def author_readable_def Let_def split: sum.splits)

lemma callback_other:
  "k \<noteq> ''author_name'' \<Longrightarrow> k \<noteq> ''author_email'' \<Longrightarrow>
   k \<noteq> ''committer_name'' \<Longrightarrow> k \<noteq> ''committer_email'' \<Longrightarrow>
   fst (commit_callback c) k = c k"
  by (auto simp: commit_callback_def author_test_eq committer_test_eq setattr_def
      Let_def split: sum.splits)

lemma callback_outcome:
  "snd (commit_callback c) =
     (if c ''author_email'' = None then Raised (AttributeError ''author_email'')
      else if attr_is c ''author_email'' ''andrew@caramel-code.com'' \<and>
          c ''author_name'' = None
        then Raised (AttributeError ''author_name'')
      else if c ''committer_email'' = None then Raised (AttributeError ''committer_email'')
      else if attr_is c ''committer_email'' ''andrew@caramel-code.com'' \<and>
          c ''committer_name'' = None
        then Raised (AttributeError ''committer_name'')
      else Returned)"
  by (auto simp: commit_callback_def author_test_eq committer_test_eq setattr_def
      Let_def split: sum.splits)

lemmas callback_fields =
  callback_author_name callback_author_email callback_committer_name callback_committer_email

lemma commit_record_readable: "commit_record c \<Longrightarrow> author_readable c"
  by (simp add: commit_record_def author_readable_def)

lemma commit_record_returns: "commit_record c \<Longrightarrow> snd (commit_callback c) = Returned"
  by (simp add: commit_record_def callback_outcome)

text \<open>The tests on the object a call leaves behind.\<close>

lemma author_is_legacy_after: "\<not> author_is_legacy (fst (commit_callback c))"
  by (auto simp: author_is_legacy_def attr_is_def callback_author_name callback_author_email
      split: option.splits)

lemma author_readable_after: "author_readable (fst (commit_callback c)) = author_readable c"
  by (auto simp: author_readable_def author_is_legacy_def attr_is_def callback_author_name
      callback_author_email split: option.splits)

lemma committer_is_legacy_after:
  "committer_is_legacy (fst (commit_callback c)) \<longleftrightarrow>
     committer_is_legacy c \<and> \<not> author_readable c"
  by (auto simp: committer_is_legacy_def attr_is_def callback_committer_name
      callback_committer_email split: option.splits)

lemma callback_twice_state:
  "fst (commit_callback (fst (commit_callback c))) = fst (commit_callback c)"
proof
  fix k
  show "fst (commit_callback (fst (commit_callback c))) k = fst (commit_callback c) k"
  proof (cases "k = ''author_name'' \<or> k = ''author_email'' \<or>
      k = ''committer_name'' \<or> k = ''committer_email''")
    case True
    then show ?thesis
      by (auto simp: callback_fields [of "fst (commit_callback c)"] author_is_legacy_after
          committer_is_legacy_after author_readable_after)
  next
    case False
    then show ?thesis by (simp add: callback_other)
  qed
qed

text \<open>
  A pair held in bytes-like buffers with the legacy bytes is equal to the legacy pair, and
  the call replaces it by the canonical \<^verbatim>\<open>bytes\<close> values.
\<close>

lemma bytes_like_pair_rewritten:
  "author_is_legacy rec_bytearray \<and>
   fst (commit_callback rec_bytearray) ''author_name'' = Some canonical_name \<and>
   fst (commit_callback rec_bytearray) ''author_email'' = Some canonical_email \<and>
   snd (commit_callback rec_bytearray) = Returned"
  by (simp add: callback_author_name callback_author_email callback_outcome
      author_is_legacy_def rec_bytearray_def)

section \<open>Rewriting the legacy identity\<close>

text \<open>
  C1. For every commit whose \<^verbatim>\<open>author_name\<close> is the byte string \<^verbatim>\<open>Andrew Hewitt\<close> and whose
  \<^verbatim>\<open>author_email\<close> is the byte string \<^verbatim>\<open>andrew@caramel-code.com\<close>, after one call of
  \<^verbatim>\<open>commit_callback\<close> the commit's \<^verbatim>\<open>author_name\<close> is \<^verbatim>\<open>GigaElk\<close> and its
  \<^verbatim>\<open>author_email\<close> is \<^verbatim>\<open>gigaelk@gmail.com\<close>. The author assignments are made before the code
  reads any committer attribute, so this holds whatever the rest of the object is.
\<close>

theorem author_rewritten:
  assumes "c ''author_name'' = Some legacy_name"
    and "c ''author_email'' = Some legacy_email"
  shows "fst (commit_callback c) ''author_name'' = Some canonical_name \<and>
         fst (commit_callback c) ''author_email'' = Some canonical_email"
  using assms
  by (simp add: callback_author_name callback_author_email author_is_legacy_def attr_is_def)

theorem author_rewritten_witness:
  "rec_author_only ''author_name'' = Some legacy_name \<and>
   rec_author_only ''author_email'' = Some legacy_email \<and>
   fst (commit_callback rec_author_only) ''author_name'' = Some canonical_name \<and>
   fst (commit_callback rec_author_only) ''author_email'' = Some canonical_email"
proof -
  have n: "rec_author_only ''author_name'' = Some legacy_name"
    by (simp add: rec_author_only_def)
  have e: "rec_author_only ''author_email'' = Some legacy_email"
    by (simp add: rec_author_only_def)
  from author_rewritten [OF n e] n e show ?thesis by simp
qed

text \<open>
  C2. For every commit record whose \<^verbatim>\<open>committer_name\<close> is the byte string \<^verbatim>\<open>Andrew Hewitt\<close>
  and whose \<^verbatim>\<open>committer_email\<close> is the byte string \<^verbatim>\<open>andrew@caramel-code.com\<close>, after one
  call of \<^verbatim>\<open>commit_callback\<close> the record's \<^verbatim>\<open>committer_name\<close> is \<^verbatim>\<open>GigaElk\<close> and its
  \<^verbatim>\<open>committer_email\<close> is \<^verbatim>\<open>gigaelk@gmail.com\<close>. A commit record carries the four identity
  attributes, so the first \<^verbatim>\<open>if\<close> has run without raising when the second one starts.
\<close>

theorem committer_rewritten:
  assumes "commit_record c"
    and "c ''committer_name'' = Some legacy_name"
    and "c ''committer_email'' = Some legacy_email"
  shows "fst (commit_callback c) ''committer_name'' = Some canonical_name \<and>
         fst (commit_callback c) ''committer_email'' = Some canonical_email"
  using assms commit_record_readable [of c]
  by (simp add: callback_committer_name callback_committer_email committer_is_legacy_def
      attr_is_def)

theorem committer_rewritten_witness:
  "commit_record rec_committer_only \<and>
   rec_committer_only ''committer_name'' = Some legacy_name \<and>
   rec_committer_only ''committer_email'' = Some legacy_email \<and>
   fst (commit_callback rec_committer_only) ''committer_name'' = Some canonical_name \<and>
   fst (commit_callback rec_committer_only) ''committer_email'' = Some canonical_email"
proof -
  have r: "commit_record rec_committer_only"
    by (simp add: rec_committer_only_def commit_record_def)
  have n: "rec_committer_only ''committer_name'' = Some legacy_name"
    by (simp add: rec_committer_only_def)
  have e: "rec_committer_only ''committer_email'' = Some legacy_email"
    by (simp add: rec_committer_only_def)
  from committer_rewritten [OF r n e] r n e show ?thesis by simp
qed

section \<open>Pairs that do not match\<close>

text \<open>
  C3. For every commit in which \<^verbatim>\<open>author_name\<close> and \<^verbatim>\<open>author_email\<close> are not both the legacy
  values, a call leaves \<^verbatim>\<open>author_name\<close> and \<^verbatim>\<open>author_email\<close> exactly as they were; and the
  same for \<^verbatim>\<open>committer_name\<close> and \<^verbatim>\<open>committer_email\<close> when the committer pair does not
  match in both. Partial matches are instances: the witness has the legacy e-mail with the
  name in lower case as author, and the legacy name with another e-mail as committer.
\<close>

theorem unmatched_pair_unchanged:
  "(\<not> author_is_legacy c \<longrightarrow>
      fst (commit_callback c) ''author_name'' = c ''author_name'' \<and>
      fst (commit_callback c) ''author_email'' = c ''author_email'') \<and>
   (\<not> committer_is_legacy c \<longrightarrow>
      fst (commit_callback c) ''committer_name'' = c ''committer_name'' \<and>
      fst (commit_callback c) ''committer_email'' = c ''committer_email'')"
  by (simp add: callback_fields)

theorem unmatched_pair_unchanged_witness:
  "rec_partial ''author_name'' = Some (PyBytes ''andrew hewitt'') \<and>
   rec_partial ''author_email'' = Some legacy_email \<and>
   rec_partial ''committer_name'' = Some legacy_name \<and>
   rec_partial ''committer_email'' = Some (PyBytes ''old2@caramel-code.com'') \<and>
   \<not> author_is_legacy rec_partial \<and>
   \<not> committer_is_legacy rec_partial \<and>
   fst (commit_callback rec_partial) ''author_name'' = Some (PyBytes ''andrew hewitt'') \<and>
   fst (commit_callback rec_partial) ''author_email'' = Some legacy_email \<and>
   fst (commit_callback rec_partial) ''committer_name'' = Some legacy_name \<and>
   fst (commit_callback rec_partial) ''committer_email'' = Some (PyBytes ''old2@caramel-code.com'')"
proof -
  have a: "\<not> author_is_legacy rec_partial"
    by (simp add: rec_partial_def author_is_legacy_def)
  have b: "\<not> committer_is_legacy rec_partial"
    by (simp add: rec_partial_def committer_is_legacy_def)
  have v: "rec_partial ''author_name'' = Some (PyBytes ''andrew hewitt'')"
    "rec_partial ''author_email'' = Some legacy_email"
    "rec_partial ''committer_name'' = Some legacy_name"
    "rec_partial ''committer_email'' = Some (PyBytes ''old2@caramel-code.com'')"
    by (simp_all add: rec_partial_def)
  from unmatched_pair_unchanged [of rec_partial] a b v show ?thesis by simp
qed

section \<open>Independence of the two rewrites\<close>

text \<open>
  C4. The author rewrite and the committer rewrite are independent. For commit records,
  the committer attributes after a call depend only on the committer attributes before it
  (two records that agree on them end with the same committer attributes, whatever their
  authors are), and the author attributes after a call depend only on the author attributes
  before it. In particular: with a legacy author and another committer, the author is
  rewritten and the committer is untouched; with a legacy committer and another author, the
  committer is rewritten and the author is untouched; with both legacy, both are rewritten
  in the same call.
\<close>

theorem author_committer_independent:
  assumes "commit_record c" and "commit_record d"
  shows
    "(c ''committer_name'' = d ''committer_name'' \<and>
      c ''committer_email'' = d ''committer_email'' \<longrightarrow>
        fst (commit_callback c) ''committer_name'' = fst (commit_callback d) ''committer_name'' \<and>
        fst (commit_callback c) ''committer_email'' = fst (commit_callback d) ''committer_email'') \<and>
     (c ''author_name'' = d ''author_name'' \<and> c ''author_email'' = d ''author_email'' \<longrightarrow>
        fst (commit_callback c) ''author_name'' = fst (commit_callback d) ''author_name'' \<and>
        fst (commit_callback c) ''author_email'' = fst (commit_callback d) ''author_email'') \<and>
     (author_is_legacy c \<and> \<not> committer_is_legacy c \<longrightarrow>
        fst (commit_callback c) ''author_name'' = Some canonical_name \<and>
        fst (commit_callback c) ''author_email'' = Some canonical_email \<and>
        fst (commit_callback c) ''committer_name'' = c ''committer_name'' \<and>
        fst (commit_callback c) ''committer_email'' = c ''committer_email'') \<and>
     (committer_is_legacy c \<and> \<not> author_is_legacy c \<longrightarrow>
        fst (commit_callback c) ''committer_name'' = Some canonical_name \<and>
        fst (commit_callback c) ''committer_email'' = Some canonical_email \<and>
        fst (commit_callback c) ''author_name'' = c ''author_name'' \<and>
        fst (commit_callback c) ''author_email'' = c ''author_email'') \<and>
     (author_is_legacy c \<and> committer_is_legacy c \<longrightarrow>
        fst (commit_callback c) ''author_name'' = Some canonical_name \<and>
        fst (commit_callback c) ''author_email'' = Some canonical_email \<and>
        fst (commit_callback c) ''committer_name'' = Some canonical_name \<and>
        fst (commit_callback c) ''committer_email'' = Some canonical_email)"
proof -
  have rc: "author_readable c" and rd: "author_readable d"
    using assms commit_record_readable by blast+
  show ?thesis
    by (simp add: callback_fields rc rd author_is_legacy_def committer_is_legacy_def
        attr_is_def)
qed

theorem author_committer_independent_witness:
  "commit_record rec_author_only \<and> commit_record rec_neither \<and>
   commit_record rec_committer_only \<and> commit_record rec_both \<and>
   rec_author_only ''committer_name'' = rec_neither ''committer_name'' \<and>
   rec_author_only ''committer_email'' = rec_neither ''committer_email'' \<and>
   rec_author_only ''author_name'' \<noteq> rec_neither ''author_name'' \<and>
   fst (commit_callback rec_author_only) ''committer_name'' =
     fst (commit_callback rec_neither) ''committer_name'' \<and>
   fst (commit_callback rec_author_only) ''committer_email'' =
     fst (commit_callback rec_neither) ''committer_email'' \<and>
   rec_author_only ''author_name'' = rec_both ''author_name'' \<and>
   rec_author_only ''author_email'' = rec_both ''author_email'' \<and>
   rec_author_only ''committer_name'' \<noteq> rec_both ''committer_name'' \<and>
   fst (commit_callback rec_author_only) ''author_name'' =
     fst (commit_callback rec_both) ''author_name'' \<and>
   fst (commit_callback rec_author_only) ''author_email'' =
     fst (commit_callback rec_both) ''author_email'' \<and>
   author_is_legacy rec_author_only \<and> \<not> committer_is_legacy rec_author_only \<and>
   fst (commit_callback rec_author_only) ''author_name'' = Some canonical_name \<and>
   fst (commit_callback rec_author_only) ''author_email'' = Some canonical_email \<and>
   fst (commit_callback rec_author_only) ''committer_name'' = Some (PyBytes ''Jane Doe'') \<and>
   fst (commit_callback rec_author_only) ''committer_email'' =
     Some (PyBytes ''jane@example.com'') \<and>
   committer_is_legacy rec_committer_only \<and> \<not> author_is_legacy rec_committer_only \<and>
   fst (commit_callback rec_committer_only) ''committer_name'' = Some canonical_name \<and>
   fst (commit_callback rec_committer_only) ''committer_email'' = Some canonical_email \<and>
   fst (commit_callback rec_committer_only) ''author_name'' = Some (PyBytes ''Jane Doe'') \<and>
   fst (commit_callback rec_committer_only) ''author_email'' =
     Some (PyBytes ''jane@example.com'') \<and>
   author_is_legacy rec_both \<and> committer_is_legacy rec_both \<and>
   fst (commit_callback rec_both) ''author_name'' = Some canonical_name \<and>
   fst (commit_callback rec_both) ''author_email'' = Some canonical_email \<and>
   fst (commit_callback rec_both) ''committer_name'' = Some canonical_name \<and>
   fst (commit_callback rec_both) ''committer_email'' = Some canonical_email"
proof -
  have r: "commit_record rec_author_only" "commit_record rec_neither"
    "commit_record rec_committer_only" "commit_record rec_both"
    by (simp_all add: rec_author_only_def rec_neither_def rec_committer_only_def rec_both_def commit_record_def)
  have l: "author_is_legacy rec_author_only" "\<not> committer_is_legacy rec_author_only"
    "committer_is_legacy rec_committer_only" "\<not> author_is_legacy rec_committer_only"
    "author_is_legacy rec_both" "committer_is_legacy rec_both"
    by (simp_all add: rec_author_only_def rec_neither_def rec_committer_only_def rec_both_def author_is_legacy_def committer_is_legacy_def)
  have s: "rec_author_only ''committer_name'' = rec_neither ''committer_name''"
    "rec_author_only ''committer_email'' = rec_neither ''committer_email''"
    "rec_author_only ''author_name'' \<noteq> rec_neither ''author_name''"
    "rec_author_only ''author_name'' = rec_both ''author_name''"
    "rec_author_only ''author_email'' = rec_both ''author_email''"
    "rec_author_only ''committer_name'' \<noteq> rec_both ''committer_name''"
    by (simp_all add: rec_author_only_def rec_neither_def rec_committer_only_def rec_both_def)
  have v: "rec_author_only ''committer_name'' = Some (PyBytes ''Jane Doe'')"
    "rec_author_only ''committer_email'' = Some (PyBytes ''jane@example.com'')"
    "rec_committer_only ''author_name'' = Some (PyBytes ''Jane Doe'')"
    "rec_committer_only ''author_email'' = Some (PyBytes ''jane@example.com'')"
    by (simp_all add: rec_author_only_def rec_neither_def rec_committer_only_def rec_both_def)
  have committer_same:
    "fst (commit_callback rec_author_only) ''committer_name'' =
       fst (commit_callback rec_neither) ''committer_name'' \<and>
     fst (commit_callback rec_author_only) ''committer_email'' =
       fst (commit_callback rec_neither) ''committer_email''"
    using author_committer_independent [OF r(1) r(2)] s(1) s(2) by blast
  have author_same:
    "fst (commit_callback rec_author_only) ''author_name'' =
       fst (commit_callback rec_both) ''author_name'' \<and>
     fst (commit_callback rec_author_only) ''author_email'' =
       fst (commit_callback rec_both) ''author_email''"
    using author_committer_independent [OF r(1) r(4)] s(4) s(5) by blast
  have author_only:
    "fst (commit_callback rec_author_only) ''author_name'' = Some canonical_name \<and>
     fst (commit_callback rec_author_only) ''author_email'' = Some canonical_email \<and>
     fst (commit_callback rec_author_only) ''committer_name'' = Some (PyBytes ''Jane Doe'') \<and>
     fst (commit_callback rec_author_only) ''committer_email'' =
       Some (PyBytes ''jane@example.com'')"
    using author_committer_independent [OF r(1) r(1)] l(1) l(2) unfolding v(1) v(2)
    by blast
  have committer_only:
    "fst (commit_callback rec_committer_only) ''committer_name'' = Some canonical_name \<and>
     fst (commit_callback rec_committer_only) ''committer_email'' = Some canonical_email \<and>
     fst (commit_callback rec_committer_only) ''author_name'' = Some (PyBytes ''Jane Doe'') \<and>
     fst (commit_callback rec_committer_only) ''author_email'' =
       Some (PyBytes ''jane@example.com'')"
    using author_committer_independent [OF r(3) r(3)] l(3) l(4) unfolding v(3) v(4)
    by blast
  have both:
    "fst (commit_callback rec_both) ''author_name'' = Some canonical_name \<and>
     fst (commit_callback rec_both) ''author_email'' = Some canonical_email \<and>
     fst (commit_callback rec_both) ''committer_name'' = Some canonical_name \<and>
     fst (commit_callback rec_both) ''committer_email'' = Some canonical_email"
    using author_committer_independent [OF r(4) r(4)] l(5) l(6) by blast
  from r l s committer_same author_same author_only committer_only both
  show ?thesis by blast
qed

section \<open>Idempotence\<close>

text \<open>
  C5. Calling \<^verbatim>\<open>commit_callback\<close> twice in a row leaves the commit in the same state as
  calling it once, and the second call ends the way the first did. The second call changes
  nothing because the canonical values never pass the tests: after the assignments of either
  \<^verbatim>\<open>if\<close>, its condition evaluates to false.
\<close>

theorem callback_idempotent:
  "fst (commit_callback (fst (commit_callback c))) = fst (commit_callback c) \<and>
   snd (commit_callback (fst (commit_callback c))) = snd (commit_callback c) \<and>
   author_test (setattr (setattr c ''author_email'' canonical_email)
      ''author_name'' canonical_name) = Inr False \<and>
   committer_test (setattr (setattr c ''committer_email'' canonical_email)
      ''committer_name'' canonical_name) = Inr False"
proof -
  have "snd (commit_callback (fst (commit_callback c))) = snd (commit_callback c)"
    by (auto simp: callback_outcome callback_fields author_is_legacy_def
        committer_is_legacy_def author_readable_def attr_is_def split: option.splits)
  then show ?thesis
    by (simp add: callback_twice_state author_test_eq committer_test_eq setattr_def)
qed

section \<open>Frame\<close>

text \<open>
  C6. A call alters at most the four attributes \<^verbatim>\<open>author_name\<close>, \<^verbatim>\<open>author_email\<close>,
  \<^verbatim>\<open>committer_name\<close> and \<^verbatim>\<open>committer_email\<close>: every other attribute of the commit
  (message, dates, parents, and so on), present or not, is after the call what it was before.
  And an identity attribute differs after the call only when its pair was the legacy pair.
  The model's only state is the commit object, as the source has no statement but the two
  \<^verbatim>\<open>if\<close>s: there is nothing else a call could affect.
\<close>

theorem only_identity_fields_change:
  "(k \<noteq> ''author_name'' \<and> k \<noteq> ''author_email'' \<and>
    k \<noteq> ''committer_name'' \<and> k \<noteq> ''committer_email'' \<longrightarrow>
      fst (commit_callback c) k = c k) \<and>
   (fst (commit_callback c) ''author_name'' \<noteq> c ''author_name'' \<or>
    fst (commit_callback c) ''author_email'' \<noteq> c ''author_email'' \<longrightarrow>
      author_is_legacy c) \<and>
   (fst (commit_callback c) ''committer_name'' \<noteq> c ''committer_name'' \<or>
    fst (commit_callback c) ''committer_email'' \<noteq> c ''committer_email'' \<longrightarrow>
      committer_is_legacy c)"
  by (simp add: callback_fields callback_other)

theorem only_identity_fields_change_witness:
  "fst (commit_callback rec_author_only) ''message'' = Some (PyBytes ''Initial commit'') \<and>
   fst (commit_callback rec_author_only) ''tree'' = None \<and>
   fst (commit_callback rec_both) ''author_name'' \<noteq> rec_both ''author_name'' \<and>
   author_is_legacy rec_both \<and>
   fst (commit_callback rec_both) ''committer_email'' \<noteq> rec_both ''committer_email'' \<and>
   committer_is_legacy rec_both"
proof -
  have m: "rec_author_only ''message'' = Some (PyBytes ''Initial commit'')"
    "rec_author_only ''tree'' = None"
    by (simp_all add: rec_author_only_def)
  have a: "fst (commit_callback rec_both) ''author_name'' \<noteq> rec_both ''author_name''"
    by (simp add: callback_author_name rec_both_def author_is_legacy_def)
  have b: "fst (commit_callback rec_both) ''committer_email'' \<noteq> rec_both ''committer_email''"
    by (simp add: callback_committer_email rec_both_def committer_is_legacy_def
        author_readable_def)
  from only_identity_fields_change [of "''message''" rec_author_only]
    only_identity_fields_change [of "''tree''" rec_author_only]
    only_identity_fields_change [of "''message''" rec_both] m a b
  show ?thesis by simp
qed

section \<open>Faults\<close>

text \<open>
  C7, as stated, says that the call never raises, also when identity fields are absent.
  It does raise on an object that lacks an attribute the code reads: the commit below has no
  \<^verbatim>\<open>author_email\<close>, and the first attribute access raises \<^verbatim>\<open>AttributeError\<close>.
\<close>

theorem absent_attribute_raises:
  "rec_no_author_email ''author_email'' = None \<and>
   snd (commit_callback rec_no_author_email) = Raised (AttributeError ''author_email'')"
  by (simp add: callback_outcome rec_no_author_email_def)

text \<open>
  C7, amended. The call completes without raising exactly when every identity attribute it
  reads is there: \<^verbatim>\<open>author_email\<close> and \<^verbatim>\<open>committer_email\<close> always, \<^verbatim>\<open>author_name\<close>
  (respectively \<^verbatim>\<open>committer_name\<close>) only when the e-mail beside it is equal to the legacy
  e-mail. In particular it never fails on a commit record, whichever built-in values the four
  attributes hold (byte sequences, empty or not, \<^verbatim>\<open>None\<close>, text, integers, lists), and it
  does not fail either when a name is absent beside an e-mail that is not the legacy one.
  A field that is there but holds \<^verbatim>\<open>None\<close>, text, an integer or a list is simply not equal
  to the legacy value, and a pair that is not equal to the legacy pair is passed through
  unmodified. Equality is that of \<^verbatim>\<open>==\<close>: a bytes-like buffer with the legacy bytes is
  equal to the legacy value.
\<close>

theorem returns_iff_read_attributes_present:
  "(snd (commit_callback c) = Returned \<longleftrightarrow>
      c ''author_email'' \<noteq> None \<and>
      (attr_is c ''author_email'' ''andrew@caramel-code.com'' \<longrightarrow>
         c ''author_name'' \<noteq> None) \<and>
      c ''committer_email'' \<noteq> None \<and>
      (attr_is c ''committer_email'' ''andrew@caramel-code.com'' \<longrightarrow>
         c ''committer_name'' \<noteq> None)) \<and>
   (commit_record c \<longrightarrow> snd (commit_callback c) = Returned) \<and>
   (\<not> author_is_legacy c \<longrightarrow>
      fst (commit_callback c) ''author_name'' = c ''author_name'' \<and>
      fst (commit_callback c) ''author_email'' = c ''author_email'') \<and>
   (\<not> committer_is_legacy c \<longrightarrow>
      fst (commit_callback c) ''committer_name'' = c ''committer_name'' \<and>
      fst (commit_callback c) ''committer_email'' = c ''committer_email'')"
proof -
  have "snd (commit_callback c) = Returned \<longleftrightarrow>
      c ''author_email'' \<noteq> None \<and>
      (attr_is c ''author_email'' ''andrew@caramel-code.com'' \<longrightarrow>
         c ''author_name'' \<noteq> None) \<and>
      c ''committer_email'' \<noteq> None \<and>
      (attr_is c ''committer_email'' ''andrew@caramel-code.com'' \<longrightarrow>
         c ''committer_name'' \<noteq> None)"
    by (simp add: callback_outcome)
  moreover have "commit_record c \<longrightarrow> snd (commit_callback c) = Returned"
    by (simp add: commit_record_returns)
  ultimately show ?thesis
    by (simp add: callback_fields)
qed

theorem returns_iff_read_attributes_present_witness:
  "commit_record rec_malformed \<and>
   \<not> author_is_legacy rec_malformed \<and> \<not> committer_is_legacy rec_malformed \<and>
   snd (commit_callback rec_malformed) = Returned \<and>
   fst (commit_callback rec_malformed) ''author_name'' = Some (PyBytes []) \<and>
   fst (commit_callback rec_malformed) ''author_email'' = Some PyNone \<and>
   fst (commit_callback rec_malformed) ''committer_name'' = Some (PyStr ''Andrew Hewitt'') \<and>
   fst (commit_callback rec_malformed) ''committer_email'' = Some legacy_email \<and>
   rec_emails_only ''author_name'' = None \<and> rec_emails_only ''committer_name'' = None \<and>
   snd (commit_callback rec_emails_only) = Returned"
proof -
  have r: "commit_record rec_malformed"
    by (simp add: rec_malformed_def commit_record_def)
  have l: "\<not> author_is_legacy rec_malformed" "\<not> committer_is_legacy rec_malformed"
    by (simp_all add: rec_malformed_def author_is_legacy_def committer_is_legacy_def)
  have v: "rec_malformed ''author_name'' = Some (PyBytes [])"
    "rec_malformed ''author_email'' = Some PyNone"
    "rec_malformed ''committer_name'' = Some (PyStr ''Andrew Hewitt'')"
    "rec_malformed ''committer_email'' = Some legacy_email"
    by (simp_all add: rec_malformed_def)
  have malformed:
    "snd (commit_callback rec_malformed) = Returned \<and>
     fst (commit_callback rec_malformed) ''author_name'' = Some (PyBytes []) \<and>
     fst (commit_callback rec_malformed) ''author_email'' = Some PyNone \<and>
     fst (commit_callback rec_malformed) ''committer_name'' = Some (PyStr ''Andrew Hewitt'') \<and>
     fst (commit_callback rec_malformed) ''committer_email'' = Some legacy_email"
    using returns_iff_read_attributes_present [of rec_malformed] r l unfolding v by blast
  have e: "rec_emails_only ''author_email'' \<noteq> None"
    "\<not> attr_is rec_emails_only ''author_email'' ''andrew@caramel-code.com''"
    "rec_emails_only ''committer_email'' \<noteq> None"
    "\<not> attr_is rec_emails_only ''committer_email'' ''andrew@caramel-code.com''"
    "rec_emails_only ''author_name'' = None" "rec_emails_only ''committer_name'' = None"
    by (simp_all add: rec_emails_only_def)
  have emails_only: "snd (commit_callback rec_emails_only) = Returned"
    using returns_iff_read_attributes_present [of rec_emails_only] e by blast
  from r l malformed e(5) e(6) emails_only show ?thesis by blast
qed

section \<open>Determinism\<close>

text \<open>
  C8. The outcome of a call depends only on the four identity attributes of its argument:
  two commits that agree on them, whatever else they hold, have the same four identity
  attributes after the call, and the two calls end the same way. The function reads nothing
  but its argument, so there is no other state the result could depend on.
\<close>

theorem callback_deterministic:
  assumes "c ''author_name'' = d ''author_name''"
    and "c ''author_email'' = d ''author_email''"
    and "c ''committer_name'' = d ''committer_name''"
    and "c ''committer_email'' = d ''committer_email''"
  shows "fst (commit_callback c) ''author_name'' = fst (commit_callback d) ''author_name'' \<and>
    fst (commit_callback c) ''author_email'' = fst (commit_callback d) ''author_email'' \<and>
    fst (commit_callback c) ''committer_name'' = fst (commit_callback d) ''committer_name'' \<and>
    fst (commit_callback c) ''committer_email'' = fst (commit_callback d) ''committer_email'' \<and>
    snd (commit_callback c) = snd (commit_callback d)"
proof -
  have "attr_is c ''author_name'' = attr_is d ''author_name''"
    "attr_is c ''author_email'' = attr_is d ''author_email''"
    "attr_is c ''committer_name'' = attr_is d ''committer_name''"
    "attr_is c ''committer_email'' = attr_is d ''committer_email''"
    using assms by (simp_all add: attr_is_def fun_eq_iff)
  with assms show ?thesis
    by (auto simp: callback_fields callback_outcome author_is_legacy_def
        committer_is_legacy_def author_readable_def)
qed

theorem callback_deterministic_witness:
  "rec_author_only ''message'' \<noteq> rec_author_only_reworded ''message'' \<and>
   rec_author_only ''author_name'' = rec_author_only_reworded ''author_name'' \<and>
   rec_author_only ''author_email'' = rec_author_only_reworded ''author_email'' \<and>
   rec_author_only ''committer_name'' = rec_author_only_reworded ''committer_name'' \<and>
   rec_author_only ''committer_email'' = rec_author_only_reworded ''committer_email'' \<and>
   fst (commit_callback rec_author_only) ''author_name'' =
     fst (commit_callback rec_author_only_reworded) ''author_name'' \<and>
   fst (commit_callback rec_author_only) ''author_email'' =
     fst (commit_callback rec_author_only_reworded) ''author_email'' \<and>
   fst (commit_callback rec_author_only) ''committer_name'' =
     fst (commit_callback rec_author_only_reworded) ''committer_name'' \<and>
   fst (commit_callback rec_author_only) ''committer_email'' =
     fst (commit_callback rec_author_only_reworded) ''committer_email'' \<and>
   snd (commit_callback rec_author_only) = snd (commit_callback rec_author_only_reworded)"
proof -
  have m: "rec_author_only ''message'' \<noteq> rec_author_only_reworded ''message''"
    by (simp add: rec_author_only_reworded_def rec_author_only_def)
  have e: "rec_author_only ''author_name'' = rec_author_only_reworded ''author_name''"
    "rec_author_only ''author_email'' = rec_author_only_reworded ''author_email''"
    "rec_author_only ''committer_name'' = rec_author_only_reworded ''committer_name''"
    "rec_author_only ''committer_email'' = rec_author_only_reworded ''committer_email''"
    by (simp_all add: rec_author_only_reworded_def)
  from callback_deterministic [OF e] m e show ?thesis by simp
qed

section \<open>Invariants of the result\<close>

text \<open>
  C9. After a call on a commit record, the author is not the legacy pair and the committer
  is not the legacy pair: the full legacy identity does not survive a call in either role.
\<close>

theorem legacy_pair_gone:
  assumes "commit_record c"
  shows "\<not> author_is_legacy (fst (commit_callback c)) \<and>
         \<not> committer_is_legacy (fst (commit_callback c))"
  using commit_record_readable [OF assms]
  by (simp add: author_is_legacy_after committer_is_legacy_after)

theorem legacy_pair_gone_witness:
  "commit_record rec_both \<and> author_is_legacy rec_both \<and> committer_is_legacy rec_both \<and>
   \<not> author_is_legacy (fst (commit_callback rec_both)) \<and>
   \<not> committer_is_legacy (fst (commit_callback rec_both))"
proof -
  have r: "commit_record rec_both"
    by (simp add: rec_both_def commit_record_def)
  have l: "author_is_legacy rec_both" "committer_is_legacy rec_both"
    by (simp_all add: rec_both_def author_is_legacy_def committer_is_legacy_def)
  from legacy_pair_gone [OF r] r l show ?thesis by simp
qed

text \<open>
  C10. Each pair is updated as a whole. After a call, either \<^verbatim>\<open>author_name\<close> and
  \<^verbatim>\<open>author_email\<close> both are what they were, or both have changed, to \<^verbatim>\<open>GigaElk\<close> and
  \<^verbatim>\<open>gigaelk@gmail.com\<close>; never exactly one of the two. Likewise for the committer pair.
\<close>

theorem pair_atomic:
  "(fst (commit_callback c) ''author_name'' = c ''author_name'' \<and>
    fst (commit_callback c) ''author_email'' = c ''author_email'' \<or>
    fst (commit_callback c) ''author_name'' = Some canonical_name \<and>
    fst (commit_callback c) ''author_email'' = Some canonical_email \<and>
    c ''author_name'' \<noteq> Some canonical_name \<and> c ''author_email'' \<noteq> Some canonical_email) \<and>
   (fst (commit_callback c) ''committer_name'' = c ''committer_name'' \<and>
    fst (commit_callback c) ''committer_email'' = c ''committer_email'' \<or>
    fst (commit_callback c) ''committer_name'' = Some canonical_name \<and>
    fst (commit_callback c) ''committer_email'' = Some canonical_email \<and>
    c ''committer_name'' \<noteq> Some canonical_name \<and>
    c ''committer_email'' \<noteq> Some canonical_email)"
  by (auto simp: callback_fields author_is_legacy_def committer_is_legacy_def attr_is_def)

end
